theory Spec2Isabelle
  imports Complex_Main
begin

section \<open>The AWS Batch step operator\<close>

text \<open>
  A shallow embedding of \<^verbatim>\<open>zenml/integrations/aws/step_operators/aws_batch_step_operator.py\<close>:
  the pydantic models of a job definition, the two mappers, the job name generator, the
  job definition compiler \<^verbatim>\<open>generate_job_definition\<close> and the submission and polling
  code of \<^verbatim>\<open>launch\<close>.

  A Python \<^verbatim>\<open>str\<close> is a \<^typ>\<open>string\<close>, one \<^typ>\<open>char\<close> for each character of the Python
  string. A \<^verbatim>\<open>Dict[str,str]\<close> is an association list in the dictionary's insertion order,
  which is the order Python iterates it in. An exception is a value \<open>Inl e\<close> of a sum type,
  and what a function logs or calls is the list of events returned beside its result.
\<close>

subsection \<open>Python values\<close>

type_synonym pydict = "(string \<times> string) list"

text \<open>
  A Python \<^verbatim>\<open>float\<close>: a finite float is a rational number, and \<^verbatim>\<open>math.ceil\<close>, \<^verbatim>\<open>int\<close> and
  the comparison of a float with an \<^verbatim>\<open>int\<close> are exact on it. The three values that are not
  numbers are kept apart, since \<^verbatim>\<open>math.ceil\<close> and \<^verbatim>\<open>int\<close> raise on them.
\<close>

datatype pyfloat = Finite rat | PosInf | NegInf | NaN

text \<open>
  What the status of a job can be compared with: a string or a list. The equality of
  \<open>pyobj\<close> is Python's \<^verbatim>\<open>==\<close> on these values: a string never equals a list.
\<close>

datatype pyobj = PyStr string | PyList "pyobj list"

text \<open>
  What can be passed for a field of a pydantic model whose type is another model:
  \<^verbatim>\<open>None\<close>, an instance of that model, or a tuple of such values.
\<close>

datatype 'a pyarg = PyNone | PyInst 'a | PyTuple "'a pyarg list"

text \<open>
  \<open>ValidationError m fs\<close> is pydantic's error for model \<open>m\<close>, with the fields \<open>fs\<close> that
  failed; \<open>OverflowError\<close> and \<open>ValueError\<close> are raised by \<^verbatim>\<open>math.ceil\<close> and \<^verbatim>\<open>int\<close> on a
  float that is not a number; \<open>ClientError\<close> is botocore's; \<open>RuntimeError\<close> carries its message.
\<close>

datatype error =
    ValidationError string "string list"
  | OverflowError
  | ValueError
  | ClientError string
  | RuntimeError string

fun digits :: "nat \<Rightarrow> string" where
  "digits n =
     (if n < 10 then [char_of (48 + n)]
      else digits (n div 10) @ [char_of (48 + n mod 10)])"

declare digits.simps [simp del]

text \<open>Python's \<^verbatim>\<open>str\<close> of an \<^verbatim>\<open>int\<close>.\<close>

definition str_int :: "int \<Rightarrow> string" where
  "str_int i = (if i < 0 then CHR ''-'' # digits (nat (- i)) else digits (nat i))"

text \<open>Python's \<^verbatim>\<open>sep.join(xs)\<close>.\<close>

fun join :: "string \<Rightarrow> string list \<Rightarrow> string" where
  "join sep [] = []"
| "join sep [x] = x"
| "join sep (x # y # ys) = x @ sep @ join sep (y # ys)"

definition math_ceil :: "pyfloat \<Rightarrow> error + int" where
  "math_ceil x =
     (case x of
        Finite q \<Rightarrow> Inr \<lceil>q\<rceil>
      | PosInf \<Rightarrow> Inl OverflowError
      | NegInf \<Rightarrow> Inl OverflowError
      | NaN \<Rightarrow> Inl ValueError)"

text \<open>Python's \<^verbatim>\<open>int\<close> of a \<^verbatim>\<open>float\<close>: truncation towards zero.\<close>

definition int_of_float :: "pyfloat \<Rightarrow> error + int" where
  "int_of_float x =
     (case x of
        Finite q \<Rightarrow> Inr (if 0 \<le> q then \<lfloor>q\<rfloor> else \<lceil>q\<rceil>)
      | PosInf \<Rightarrow> Inl OverflowError
      | NegInf \<Rightarrow> Inl OverflowError
      | NaN \<Rightarrow> Inl ValueError)"

text \<open>\<^verbatim>\<open>i != x\<close> for an \<^verbatim>\<open>int\<close> \<open>i\<close> and a \<^verbatim>\<open>float\<close> \<open>x\<close>.\<close>

definition int_ne_float :: "int \<Rightarrow> pyfloat \<Rightarrow> bool" where
  "int_ne_float i x = (case x of Finite q \<Rightarrow> of_int i \<noteq> q | _ \<Rightarrow> True)"

subsection \<open>Events\<close>

text \<open>
  The effects of the module, in the order they happen: the lookup of the step run by the
  ZenML client, the two log lines, the sleep of the poll loop and the three calls of the
  AWS Batch client.
\<close>

datatype event =
    Get_run_step
  | Info_cpu_converted pyfloat int
  | Info_job_completed string
  | Error_describe_failed string error
  | Sleep nat
  | Register_job_definition string
  | Submit_job string string string
  | Describe_jobs string

fun is_batch_call :: "event \<Rightarrow> bool" where
  "is_batch_call (Register_job_definition _) = True"
| "is_batch_call (Submit_job _ _ _) = True"
| "is_batch_call (Describe_jobs _) = True"
| "is_batch_call _ = False"

subsection \<open>The environment mapper\<close>

definition map_environment :: "pydict \<Rightarrow> pydict list" where
  "map_environment environment = map (\<lambda>(k, v). [(''name'', k), (''value'', v)]) environment"

text \<open>
  The way back, from the list of \<^verbatim>\<open>{"name": k, "value": v}\<close> dictionaries to the
  key/value pairs: each dictionary is read at its two keys.
\<close>

definition environment_of :: "pydict list \<Rightarrow> pydict" where
  "environment_of ds = map (\<lambda>d. (the (map_of d ''name''), the (map_of d ''value''))) ds"

subsection \<open>The resource mapper\<close>

text \<open>
  Modelled from the spec: \<^verbatim>\<open>zenml.config.ResourceSettings\<close>, which the source imports for
  its type only. It has an optional CPU count (a float), an optional GPU count (an integer)
  and an optional memory amount; \<open>memory_MiB\<close> is what \<^verbatim>\<open>get_memory(unit="MiB")\<close> returns, and
  \<^verbatim>\<open>get_memory()\<close> is \<^verbatim>\<open>None\<close> exactly when that is. The request is empty when no field is set.
\<close>

record ResourceSettings =
  cpu_count :: "pyfloat option"
  gpu_count :: "int option"
  memory_MiB :: "pyfloat option"

definition rs_empty :: "ResourceSettings \<Rightarrow> bool" where
  "rs_empty rs = (cpu_count rs = None \<and> gpu_count rs = None \<and> memory_MiB rs = None)"

definition get_memory :: "ResourceSettings \<Rightarrow> pyfloat option" where
  "get_memory rs = memory_MiB rs"

text \<open>
  \<^verbatim>\<open>map_resource_settings\<close>: the list \<^verbatim>\<open>mapped_resource_settings\<close> grows by one dictionary
  \<^verbatim>\<open>{"value": ..., "type": ...}\<close> for each field that is set, in the order CPU, GPU, memory.
\<close>

definition map_resource_settings ::
  "ResourceSettings \<Rightarrow> (error + pydict list) \<times> event list" where
  "map_resource_settings resource_settings =
     (if rs_empty resource_settings then (Inr [], [])
      else
        let cpu =
          (case cpu_count resource_settings of
             None \<Rightarrow> (Inr [], [])
           | Some c \<Rightarrow>
               (case math_ceil c of
                  Inl e \<Rightarrow> (Inl e, [])
                | Inr cpu_count_int \<Rightarrow>
                    (Inr [[(''value'', str_int cpu_count_int), (''type'', ''VCPU'')]],
                     if int_ne_float cpu_count_int c
                     then [Info_cpu_converted c cpu_count_int] else [])))
        in
          case cpu of
            (Inl e, evs) \<Rightarrow> (Inl e, evs)
          | (Inr m1, evs) \<Rightarrow>
              let m2 =
                (case gpu_count resource_settings of
                   None \<Rightarrow> m1
                 | Some g \<Rightarrow> m1 @ [[(''value'', str_int g), (''type'', ''GPU'')]])
              in
                (case get_memory resource_settings of
                   None \<Rightarrow> (Inr m2, evs)
                 | Some mem \<Rightarrow>
                     (case int_of_float mem of
                        Inl e \<Rightarrow> (Inl e, evs)
                      | Inr k \<Rightarrow>
                          (Inr (m2 @ [[(''value'', str_int k), (''type'', ''MEMORY'')]]), evs))))"

subsection \<open>The job name generator\<close>

text \<open>
  \<^verbatim>\<open>generate_unique_batch_job_name\<close>, as a function of the pipeline's name, of the step's
  name (which the ZenML client resolves from the step run) and of the string that
  \<^verbatim>\<open>random_str(4)\<close> returns.
\<close>

definition generate_unique_batch_job_name :: "string \<Rightarrow> string \<Rightarrow> string \<Rightarrow> string" where
  "generate_unique_batch_job_name pipeline_name step_name suffix =
     (let job_name = take 55 (pipeline_name @ ''-'' @ step_name)
      in job_name @ ''-'' @ suffix)"

subsection \<open>The pydantic models of a job definition\<close>

text \<open>
  The classes of lines 99 to 162, each a record with the fields of the class. The field
  \<^verbatim>\<open>image\<close> of the container properties is \<open>image_name\<close> here.
\<close>

record AWSBatchJobDefinitionContainerProperties =
  image_name :: string
  command :: "string list"
  jobRoleArn :: string
  executionRoleArn :: string
  environment :: "pydict list"
  instanceType :: string
  resourceRequirements :: "pydict list"
  secrets :: "pydict list"

record AWSBatchJobDefinitionNodePropertiesNodeRangeProperty =
  targetNodes :: string
  container :: AWSBatchJobDefinitionContainerProperties

record AWSBatchJobDefinitionNodeProperties =
  numNodes :: int
  mainNode :: int
  nodeRangeProperties :: "AWSBatchJobDefinitionNodePropertiesNodeRangeProperty list"

record AWSBatchJobDefinitionRetryStrategy =
  attempts :: int
  evaluateOnExit :: "pydict list"

record AWSBatchJobDefinition =
  jobDefinitionName :: string
  type :: string
  parameters :: pydict
  schedulingPriority :: int
  containerProperties :: "AWSBatchJobDefinitionContainerProperties option"
  nodeProperties :: "AWSBatchJobDefinitionNodeProperties option"
  retryStrategy :: AWSBatchJobDefinitionRetryStrategy
  propagateTags :: bool
  timeout :: "(string \<times> int) list"
  tags :: pydict
  platformCapabilities :: string

text \<open>\<^verbatim>\<open>AWSBatchJobDefinitionRetryStrategy()\<close>, the default of the field \<^verbatim>\<open>retryStrategy\<close>.\<close>

definition AWSBatchJobDefinitionRetryStrategy_default :: AWSBatchJobDefinitionRetryStrategy where
  "AWSBatchJobDefinitionRetryStrategy_default =
     \<lparr>attempts = 2,
      evaluateOnExit =
        [[(''onExitCode'', ''137''), (''action'', ''RETRY'')],
         [(''onReason'', ''*Host EC2*''), (''action'', ''RETRY'')],
         [(''onExitCode'', ''*''), (''action'', ''EXIT'')]]\<rparr>"

text \<open>
  How pydantic validates the value given for a field whose type is a model: an instance of
  the model is taken as it is, and a tuple is refused (as is \<^verbatim>\<open>None\<close>, unless the field is
  \<^verbatim>\<open>Optional\<close>). The result is \<open>None\<close> when the value is refused.
\<close>

fun model_field :: "'a pyarg \<Rightarrow> 'a option" where
  "model_field (PyInst m) = Some m"
| "model_field PyNone = None"
| "model_field (PyTuple _) = None"

fun optional_model_field :: "'a pyarg \<Rightarrow> 'a option option" where
  "optional_model_field PyNone = Some None"
| "optional_model_field (PyInst m) = Some (Some m)"
| "optional_model_field (PyTuple _) = None"

text \<open>
  The constructors that validate. The constructor of the container properties is the
  record itself: its fields are strings and lists of strings, and \<^verbatim>\<open>secrets\<close> is left at
  its default, the empty list.
\<close>

definition AWSBatchJobDefinitionNodePropertiesNodeRangeProperty_init ::
  "string \<Rightarrow> AWSBatchJobDefinitionContainerProperties pyarg
     \<Rightarrow> error + AWSBatchJobDefinitionNodePropertiesNodeRangeProperty" where
  "AWSBatchJobDefinitionNodePropertiesNodeRangeProperty_init target c =
     (case model_field c of
        None \<Rightarrow>
          Inl (ValidationError ''AWSBatchJobDefinitionNodePropertiesNodeRangeProperty''
                 [''container''])
      | Some cp \<Rightarrow> Inr \<lparr>targetNodes = target, container = cp\<rparr>)"

text \<open>\<^verbatim>\<open>numNodes\<close> is a \<^verbatim>\<open>PositiveInt\<close>; \<^verbatim>\<open>mainNode\<close> is left at its default 0.\<close>

definition AWSBatchJobDefinitionNodeProperties_init ::
  "int \<Rightarrow> AWSBatchJobDefinitionNodePropertiesNodeRangeProperty list
     \<Rightarrow> error + AWSBatchJobDefinitionNodeProperties" where
  "AWSBatchJobDefinitionNodeProperties_init n ranges =
     (if 0 < n then Inr \<lparr>numNodes = n, mainNode = 0, nodeRangeProperties = ranges\<rparr>
      else Inl (ValidationError ''AWSBatchJobDefinitionNodeProperties'' [''numNodes'']))"

text \<open>
  \<^verbatim>\<open>AWSBatchJobDefinition(jobDefinitionName=..., timeout=..., **kwargs)\<close> with the keywords the
  compiler passes: \<^verbatim>\<open>type\<close> and one of \<^verbatim>\<open>containerProperties\<close> and \<^verbatim>\<open>nodeProperties\<close> (the
  other is \<open>PyNone\<close>, its default). Every other field keeps its default. Pydantic reports the
  fields that fail together, in the order of the class.
\<close>

definition AWSBatchJobDefinition_init ::
  "string \<Rightarrow> string \<Rightarrow> AWSBatchJobDefinitionContainerProperties pyarg
     \<Rightarrow> AWSBatchJobDefinitionNodeProperties pyarg \<Rightarrow> (string \<times> int) list
     \<Rightarrow> error + AWSBatchJobDefinition" where
  "AWSBatchJobDefinition_init name ty cpa npa tmo =
     (let errors =
        (if ty = ''container'' \<or> ty = ''multinode'' then [] else [''type''])
        @ (if optional_model_field cpa = None then [''containerProperties''] else [])
        @ (if optional_model_field npa = None then [''nodeProperties''] else [])
      in
        case (errors, optional_model_field cpa, optional_model_field npa) of
          ([], Some cp, Some np) \<Rightarrow>
            Inr \<lparr>jobDefinitionName = name, type = ty, parameters = [],
                 schedulingPriority = 0, containerProperties = cp, nodeProperties = np,
                 retryStrategy = AWSBatchJobDefinitionRetryStrategy_default,
                 propagateTags = False, timeout = tmo, tags = [],
                 platformCapabilities = ''EC2''\<rparr>
        | _ \<Rightarrow> Inl (ValidationError ''AWSBatchJobDefinition'' errors))"

subsection \<open>The job definition compiler\<close>

text \<open>
  What \<^verbatim>\<open>generate_job_definition\<close> reads: the configuration of the operator, and from the
  step run the pipeline's name, the step's name, the image that \<^verbatim>\<open>get_image\<close> returns, the
  resource settings and the settings of the step. These classes are declared outside the
  source file; the records have the fields the source reads.
\<close>

record AWSBatchStepOperatorConfig =
  execution_role :: string
  job_role :: string
  job_queue_name :: string

record AWSBatchStepOperatorSettings =
  instance_type :: string
  node_count :: int
  timeout_seconds :: int

record StepRunInfo =
  pipeline_name :: string
  step_name :: string
  info_image :: string
  resource_settings :: ResourceSettings
  settings :: AWSBatchStepOperatorSettings

text \<open>
  Lines 348 to 374 of \<^verbatim>\<open>generate_job_definition\<close>, as a function of the value of the
  variable \<^verbatim>\<open>container_properties\<close>, of the job name, of the node count and of the timeout.
  \<^verbatim>\<open>range(node_count)\<close> is the list \<open>[0..node_count - 1]\<close>, empty when \<open>node_count \<le> 0\<close>. In
  the second branch the node range is built first, then the node properties, then the
  job definition, and the first constructor that raises ends the function.
\<close>

definition compile_job_definition ::
  "AWSBatchJobDefinitionContainerProperties pyarg \<Rightarrow> string \<Rightarrow> int \<Rightarrow> int
     \<Rightarrow> error + AWSBatchJobDefinition" where
  "compile_job_definition container_properties job_name n tmo =
     (if n = 1 then
        AWSBatchJobDefinition_init job_name ''container'' container_properties PyNone
          [(''attemptDurationSeconds'', tmo)]
      else
        case AWSBatchJobDefinitionNodePropertiesNodeRangeProperty_init
               (join '','' (map str_int [0..n - 1])) container_properties of
          Inl e \<Rightarrow> Inl e
        | Inr node_range \<Rightarrow>
            (case AWSBatchJobDefinitionNodeProperties_init n [node_range] of
               Inl e \<Rightarrow> Inl e
             | Inr node_properties \<Rightarrow>
                 AWSBatchJobDefinition_init job_name ''multinode'' PyNone
                   (PyInst node_properties) [(''attemptDurationSeconds'', tmo)]))"

text \<open>
  \<^verbatim>\<open>generate_job_definition\<close>. The assignment of lines 338 to 346 ends with a comma after
  the closing parenthesis of the constructor call, so \<^verbatim>\<open>container_properties\<close> is bound to
  a tuple of one element, the instance. \<open>suffix\<close> is what \<^verbatim>\<open>random_str(4)\<close> returns.
\<close>

definition generate_job_definition ::
  "AWSBatchStepOperatorConfig \<Rightarrow> StepRunInfo \<Rightarrow> string list \<Rightarrow> pydict \<Rightarrow> string
     \<Rightarrow> (error + AWSBatchJobDefinition) \<times> event list" where
  "generate_job_definition config info entrypoint_command env suffix =
     (let step_settings = settings info;
          job_name = generate_unique_batch_job_name (pipeline_name info) (step_name info) suffix
      in
        case map_resource_settings (resource_settings info) of
          (Inl e, evs) \<Rightarrow> (Inl e, Get_run_step # evs)
        | (Inr requirements, evs) \<Rightarrow>
            let container_properties =
              PyTuple [PyInst
                \<lparr>image_name = info_image info,
                 command = entrypoint_command,
                 jobRoleArn = job_role config,
                 executionRoleArn = execution_role config,
                 environment = map_environment env,
                 instanceType = instance_type step_settings,
                 resourceRequirements = requirements,
                 secrets = []\<rparr>]
            in
              (compile_job_definition container_properties job_name
                 (node_count step_settings) (timeout_seconds step_settings),
               Get_run_step # evs))"

subsection \<open>Submission and polling\<close>

text \<open>
  The AWS Batch client, as the answers it gives: the name that \<^verbatim>\<open>register_job_definition\<close>
  returns for a definition, the job id that \<^verbatim>\<open>submit_job\<close> returns, and the answers of the
  successive calls of \<^verbatim>\<open>describe_jobs\<close>, each an exception or the first job of the response
  with its \<^verbatim>\<open>status\<close> and its \<^verbatim>\<open>statusReason\<close>, if any.
\<close>

record described_job =
  status :: pyobj
  statusReason :: "string option"

record batch_client =
  register_job_definition :: "AWSBatchJobDefinition \<Rightarrow> error + string"
  submit_job :: "string \<Rightarrow> string \<Rightarrow> string \<Rightarrow> error + string"
  describe_jobs :: "(error + described_job) list"

text \<open>
  How a run ends: it returns, it raises, or it is still in the poll loop when the answers
  given for \<^verbatim>\<open>describe_jobs\<close> are used up.
\<close>

datatype outcome = Returned | Raised error | Polling

fun is_ClientError :: "error \<Rightarrow> bool" where
  "is_ClientError (ClientError _) = True"
| "is_ClientError _ = False"

text \<open>
  The loop of lines 438 to 453. The status is compared with the list \<^verbatim>\<open>['SUCCEEDED']\<close> and
  with the list \<^verbatim>\<open>["FAILED"]\<close>. A \<^verbatim>\<open>ClientError\<close> of the query is logged and raised again;
  any other exception leaves the \<^verbatim>\<open>try\<close> as it is.
\<close>

fun poll_loop :: "string \<Rightarrow> (error + described_job) list \<Rightarrow> outcome \<times> event list" where
  "poll_loop job_id [] = (Polling, [])"
| "poll_loop job_id (Inl e # answers) =
     (Raised e,
      if is_ClientError e then [Describe_jobs job_id, Error_describe_failed job_id e]
      else [Describe_jobs job_id])"
| "poll_loop job_id (Inr job # answers) =
     (if status job = PyList [PyStr ''SUCCEEDED''] then
        (Returned, [Describe_jobs job_id, Info_job_completed job_id])
      else if status job = PyList [PyStr ''FAILED''] then
        (Raised (RuntimeError (''Job '' @ job_id @ '' failed: '' @
           (case statusReason job of None \<Rightarrow> ''Unknown'' | Some r \<Rightarrow> r))),
         [Describe_jobs job_id])
      else
        (fst (poll_loop job_id answers),
         Describe_jobs job_id # Sleep 10 # snd (poll_loop job_id answers)))"

definition launch ::
  "AWSBatchStepOperatorConfig \<Rightarrow> StepRunInfo \<Rightarrow> string list \<Rightarrow> pydict \<Rightarrow> string
     \<Rightarrow> batch_client \<Rightarrow> outcome \<times> event list" where
  "launch config info entrypoint_command env suffix batch =
     (case generate_job_definition config info entrypoint_command env suffix of
        (Inl e, evs) \<Rightarrow> (Raised e, evs)
      | (Inr job_definition, evs) \<Rightarrow>
          (case register_job_definition batch job_definition of
             Inl e \<Rightarrow>
               (Raised e, evs @ [Register_job_definition (jobDefinitionName job_definition)])
           | Inr job_definition_name \<Rightarrow>
               (case submit_job batch (jobDefinitionName job_definition)
                       (job_queue_name config) job_definition_name of
                  Inl e \<Rightarrow>
                    (Raised e,
                     evs @ [Register_job_definition (jobDefinitionName job_definition),
                            Submit_job (jobDefinitionName job_definition)
                              (job_queue_name config) job_definition_name])
                | Inr job_id \<Rightarrow>
                    (fst (poll_loop job_id (describe_jobs batch)),
                     evs @ [Register_job_definition (jobDefinitionName job_definition),
                            Submit_job (jobDefinitionName job_definition)
                              (job_queue_name config) job_definition_name]
                         @ snd (poll_loop job_id (describe_jobs batch))))))"

subsection \<open>Reading the results\<close>

text \<open>The \<^verbatim>\<open>type\<close> entries of a list of resource requirements.\<close>

definition requirement_types :: "pydict list \<Rightarrow> string option list" where
  "requirement_types reqs = map (\<lambda>d. map_of d ''type'') reqs"

text \<open>The inputs of the examples.\<close>

definition example_config :: AWSBatchStepOperatorConfig where
  "example_config =
     \<lparr>execution_role = ''arn:aws:iam::1:role/exec'', job_role = ''arn:aws:iam::1:role/job'',
      job_queue_name = ''queue''\<rparr>"

definition example_info :: "int \<Rightarrow> StepRunInfo" where
  "example_info n =
     \<lparr>pipeline_name = ''pipe'', step_name = ''step'', info_image = ''repo/image:1'',
      resource_settings =
        \<lparr>cpu_count = Some (Finite (23 / 10)), gpu_count = None,
         memory_MiB = Some (Finite 512)\<rparr>,
      settings = \<lparr>instance_type = ''optimal'', node_count = n, timeout_seconds = 60\<rparr>\<rparr>"

definition example_container :: AWSBatchJobDefinitionContainerProperties where
  "example_container =
     \<lparr>image_name = ''repo/image:1'', command = [''python'', ''run.py''],
      jobRoleArn = ''arn:aws:iam::1:role/job'', executionRoleArn = ''arn:aws:iam::1:role/exec'',
      environment = [[(''name'', ''A''), (''value'', ''1'')]], instanceType = ''optimal'',
      resourceRequirements = [[(''value'', ''3''), (''type'', ''VCPU'')]], secrets = []\<rparr>"

definition example_client :: "(error + described_job) list \<Rightarrow> batch_client" where
  "example_client answers =
     \<lparr>register_job_definition = (\<lambda>d. Inr (jobDefinitionName d)),
      submit_job = (\<lambda>name queue definition. Inr ''job-1''),
      describe_jobs = answers\<rparr>"

section \<open>Properties of the mappers and of the name generator\<close>

lemma ceiling_ne_of_non_int: "c \<notin> \<int> \<Longrightarrow> of_int \<lceil>c\<rceil> \<noteq> (c::rat)"
  by (metis Ints_of_int)

lemma str_int_3: "str_int 3 = ''3''"
  by code_simp

text \<open>
  C7. The environment mapper returns one \<^verbatim>\<open>{"name": k, "value": v}\<close> dictionary for each entry
  of the mapping, in the mapping's order; reading the list back gives the original key/value
  pairs; the empty mapping gives the empty list.
\<close>

theorem map_environment_roundtrip:
  "environment_of (map_environment env) = env
   \<and> map_environment env = map (\<lambda>kv. [(''name'', fst kv), (''value'', snd kv)]) env
   \<and> length (map_environment env) = length env
   \<and> map_environment [] = []"
proof -
  have "environment_of (map_environment env) = env"
    by (induction env) (auto simp: environment_of_def map_environment_def)
  moreover have "map_environment env = map (\<lambda>kv. [(''name'', fst kv), (''value'', snd kv)]) env"
    by (simp add: map_environment_def case_prod_unfold)
  ultimately show ?thesis
    by (simp add: map_environment_def)
qed

text \<open>
  C5. When only the CPU count is set, to a number \<open>c\<close> that is not an integer, the resource
  mapper returns without an error exactly one requirement, whose value is the ceiling of \<open>c\<close>
  as a string and whose type is \<^verbatim>\<open>VCPU\<close>, and logs exactly one line, the conversion of \<open>c\<close>
  to its ceiling.
\<close>

theorem map_resource_settings_cpu_only:
  assumes "cpu_count rs = Some (Finite c)" and "c \<notin> \<int>"
    and "gpu_count rs = None" and "memory_MiB rs = None"
  shows "map_resource_settings rs =
           (Inr [[(''value'', str_int \<lceil>c\<rceil>), (''type'', ''VCPU'')]],
            [Info_cpu_converted (Finite c) \<lceil>c\<rceil>])"
proof -
  have "\<not> rs_empty rs"
    using assms(1) by (simp add: rs_empty_def)
  moreover have "math_ceil (Finite c) = Inr \<lceil>c\<rceil>"
    by (simp add: math_ceil_def)
  moreover have "int_ne_float \<lceil>c\<rceil> (Finite c)"
    using ceiling_ne_of_non_int [OF assms(2)] by (simp add: int_ne_float_def)
  ultimately show ?thesis
    using assms by (simp add: map_resource_settings_def get_memory_def)
qed

theorem map_resource_settings_cpu_only_witness:
  "map_resource_settings
     \<lparr>cpu_count = Some (Finite (23 / 10)), gpu_count = None, memory_MiB = None\<rparr> =
     (Inr [[(''value'', ''3''), (''type'', ''VCPU'')]], [Info_cpu_converted (Finite (23 / 10)) 3])"
proof -
  have c: "\<lceil>23 / 10 :: rat\<rceil> = 3"
    by (simp add: ceiling_eq_iff)
  have n: "(23 / 10 :: rat) \<notin> \<int>"
    by simp
  show ?thesis
    using map_resource_settings_cpu_only
            [of "\<lparr>cpu_count = Some (Finite (23 / 10)), gpu_count = None, memory_MiB = None\<rparr>"
                "23 / 10", OF _ n]
    by (simp add: c str_int_3)
qed

text \<open>
  C10. In every list the resource mapper returns, the types are \<^verbatim>\<open>VCPU\<close> for the CPU count,
  \<^verbatim>\<open>GPU\<close> for the GPU count and \<^verbatim>\<open>MEMORY\<close> for the memory, one entry for each field that is
  set and in this order; so no type occurs twice, and the type \<^verbatim>\<open>CPU\<close> never occurs.
\<close>

theorem map_resource_settings_types:
  assumes "map_resource_settings rs = (Inr reqs, evs)"
  shows "requirement_types reqs =
           (if cpu_count rs = None then [] else [Some ''VCPU''])
           @ (if gpu_count rs = None then [] else [Some ''GPU''])
           @ (if memory_MiB rs = None then [] else [Some ''MEMORY''])
         \<and> distinct (requirement_types reqs)
         \<and> Some ''CPU'' \<notin> set (requirement_types reqs)"
proof -
  have types: "requirement_types reqs =
           (if cpu_count rs = None then [] else [Some ''VCPU''])
           @ (if gpu_count rs = None then [] else [Some ''GPU''])
           @ (if memory_MiB rs = None then [] else [Some ''MEMORY''])"
    using assms
    by (auto simp: map_resource_settings_def rs_empty_def get_memory_def requirement_types_def
          Let_def split: if_splits option.splits sum.splits prod.splits)
  then show ?thesis
    by (auto split: if_splits)
qed

theorem map_resource_settings_types_witness:
  "requirement_types
     [[(''value'', ''3''), (''type'', ''VCPU'')], [(''value'', ''1''), (''type'', ''GPU'')],
      [(''value'', ''512''), (''type'', ''MEMORY'')]]
     = [Some ''VCPU'', Some ''GPU'', Some ''MEMORY'']"
proof -
  have "map_resource_settings
          \<lparr>cpu_count = Some (Finite (23 / 10)), gpu_count = Some 1,
           memory_MiB = Some (Finite 512)\<rparr> =
        (Inr [[(''value'', ''3''), (''type'', ''VCPU'')], [(''value'', ''1''), (''type'', ''GPU'')],
              [(''value'', ''512''), (''type'', ''MEMORY'')]],
         [Info_cpu_converted (Finite (23 / 10)) 3])"
    by code_simp
  from map_resource_settings_types [OF this] show ?thesis
    by simp
qed

text \<open>
  C6. For every pipeline name and step name, and every suffix of four characters, the job
  name is \<^verbatim>\<open><pipeline>-<step>\<close> cut to at most 55 characters, then a hyphen, then the suffix,
  and it has at most 63 characters.
\<close>

theorem generate_unique_batch_job_name_length:
  assumes "length suffix = 4"
  shows "generate_unique_batch_job_name pipeline step suffix
           = take 55 (pipeline @ ''-'' @ step) @ ''-'' @ suffix
         \<and> length (take 55 (pipeline @ ''-'' @ step)) \<le> 55
         \<and> length (generate_unique_batch_job_name pipeline step suffix) \<le> 63"
proof -
  have "length (take 55 xs) \<le> 55" for xs :: string
    by simp
  then have "length (take 55 (pipeline @ ''-'' @ step)) \<le> 55"
    by blast
  then show ?thesis
    using assms by (simp add: generate_unique_batch_job_name_def del: take_append)
qed

theorem generate_unique_batch_job_name_length_witness:
  "length ''a1b2'' = 4
   \<and> generate_unique_batch_job_name ''pipe'' ''step'' ''a1b2'' = ''pipe-step-a1b2''
   \<and> length (generate_unique_batch_job_name ''pipe'' ''step'' ''a1b2'') \<le> 63"
  using generate_unique_batch_job_name_length [of "''a1b2''" "''pipe''" "''step''"]
  by simp

section \<open>Properties of the job definition compiler\<close>

subsection \<open>The constructors\<close>

lemma AWSBatchJobDefinition_init_retry:
  "AWSBatchJobDefinition_init name ty cpa npa tmo = Inr d \<Longrightarrow>
     retryStrategy d = AWSBatchJobDefinitionRetryStrategy_default"
  by (auto simp: AWSBatchJobDefinition_init_def Let_def split: list.splits option.splits if_splits)

lemma AWSBatchJobDefinition_init_rename:
  "AWSBatchJobDefinition_init n1 ty cpa npa tmo =
     map_sum id (\<lambda>d. d\<lparr>jobDefinitionName := n1\<rparr>) (AWSBatchJobDefinition_init n2 ty cpa npa tmo)"
  by (auto simp: AWSBatchJobDefinition_init_def Let_def split: list.splits option.splits)

lemma tuple_refused_single:
  "AWSBatchJobDefinition_init name ''container'' (PyTuple xs) PyNone tmo =
     Inl (ValidationError ''AWSBatchJobDefinition'' [''containerProperties''])"
  by (simp add: AWSBatchJobDefinition_init_def)

lemma tuple_refused_range:
  "AWSBatchJobDefinitionNodePropertiesNodeRangeProperty_init target (PyTuple xs) =
     Inl (ValidationError ''AWSBatchJobDefinitionNodePropertiesNodeRangeProperty'' [''container''])"
  by (simp add: AWSBatchJobDefinitionNodePropertiesNodeRangeProperty_init_def)

subsection \<open>Lines 348 to 374\<close>

text \<open>The job name is only stored: another name changes that field and nothing else.\<close>

lemma compile_job_definition_rename:
  "compile_job_definition c n1 k tmo =
     map_sum id (\<lambda>d. d\<lparr>jobDefinitionName := n1\<rparr>) (compile_job_definition c n2 k tmo)"
proof (cases "k = 1")
  case True
  then show ?thesis
    using AWSBatchJobDefinition_init_rename [of n1 "''container''" c PyNone _ n2]
    by (simp add: compile_job_definition_def)
next
  case False
  then show ?thesis
    using AWSBatchJobDefinition_init_rename [of n1 "''multinode''" PyNone _ _ n2]
    by (simp add: compile_job_definition_def split: sum.splits)
qed

text \<open>Given a tuple, both branches raise, each in the first constructor it calls.\<close>

lemma compile_job_definition_tuple:
  "compile_job_definition (PyTuple xs) name k tmo =
     (if k = 1 then Inl (ValidationError ''AWSBatchJobDefinition'' [''containerProperties''])
      else Inl (ValidationError ''AWSBatchJobDefinitionNodePropertiesNodeRangeProperty''
                  [''container'']))"
  by (simp add: compile_job_definition_def tuple_refused_single tuple_refused_range)

text \<open>
  Given an instance of the container properties, the two branches build the two shapes:
  for one node the type \<^verbatim>\<open>container\<close> with the instance in \<^verbatim>\<open>containerProperties\<close> and no
  node properties, for a positive number of nodes other than one the type \<^verbatim>\<open>multinode\<close>
  with one node range over all the nodes.
\<close>

lemma compile_job_definition_instance_single:
  "compile_job_definition (PyInst cp) name 1 tmo =
     Inr \<lparr>jobDefinitionName = name, type = ''container'', parameters = [],
          schedulingPriority = 0, containerProperties = Some cp, nodeProperties = None,
          retryStrategy = AWSBatchJobDefinitionRetryStrategy_default,
          propagateTags = False, timeout = [(''attemptDurationSeconds'', tmo)], tags = [],
          platformCapabilities = ''EC2''\<rparr>"
  by (simp add: compile_job_definition_def AWSBatchJobDefinition_init_def)

lemma compile_job_definition_instance_multinode:
  "2 \<le> n \<Longrightarrow>
   compile_job_definition (PyInst cp) name n tmo =
     Inr \<lparr>jobDefinitionName = name, type = ''multinode'', parameters = [],
          schedulingPriority = 0, containerProperties = None,
          nodeProperties =
            Some \<lparr>numNodes = n, mainNode = 0,
                  nodeRangeProperties =
                    [\<lparr>targetNodes = join '','' (map str_int [0..n - 1]), container = cp\<rparr>]\<rparr>,
          retryStrategy = AWSBatchJobDefinitionRetryStrategy_default,
          propagateTags = False, timeout = [(''attemptDurationSeconds'', tmo)], tags = [],
          platformCapabilities = ''EC2''\<rparr>"
  by (simp add: compile_job_definition_def AWSBatchJobDefinition_init_def
        AWSBatchJobDefinitionNodePropertiesNodeRangeProperty_init_def
        AWSBatchJobDefinitionNodeProperties_init_def)

lemma compile_job_definition_zero:
  "\<exists>m fs. compile_job_definition c name 0 tmo = Inl (ValidationError m fs)"
  by (cases c)
     (simp_all add: compile_job_definition_def
        AWSBatchJobDefinitionNodePropertiesNodeRangeProperty_init_def
        AWSBatchJobDefinitionNodeProperties_init_def)

subsection \<open>The whole function\<close>

text \<open>
  \<^verbatim>\<open>container_properties\<close> is a tuple, so \<^verbatim>\<open>generate_job_definition\<close> raises on every input:
  the error of the resource mapper, or the validation error of the first constructor that
  is given the tuple.
\<close>

lemma generate_job_definition_raises:
  "\<exists>e. fst (generate_job_definition config info cmd env suffix) = Inl e"
  by (simp add: generate_job_definition_def Let_def compile_job_definition_tuple
        split: prod.splits sum.splits)

lemma map_resource_settings_no_batch_call:
  "filter is_batch_call (snd (map_resource_settings rs)) = []"
  by (auto simp: map_resource_settings_def Let_def
        split: option.splits sum.splits prod.splits if_splits)

lemma generate_job_definition_no_batch_call:
  "filter is_batch_call (snd (generate_job_definition config info cmd env suffix)) = []"
  using map_resource_settings_no_batch_call [of "resource_settings info"]
  by (auto simp: generate_job_definition_def Let_def split: prod.splits sum.splits)

lemma launch_raises_what_the_compiler_raises:
  "fst (generate_job_definition config info cmd env suffix) = Inl e \<Longrightarrow>
     launch config info cmd env suffix batch =
       (Raised e, snd (generate_job_definition config info cmd env suffix))"
  by (cases "generate_job_definition config info cmd env suffix") (simp add: launch_def)

text \<open>
  C2. For node count 1 the job definition should have the type \<^verbatim>\<open>container\<close>, the container
  properties in \<^verbatim>\<open>containerProperties\<close> and no node properties. The source does not get
  there: at node count 1 \<^verbatim>\<open>generate_job_definition\<close> raises the validation error of
  \<^verbatim>\<open>AWSBatchJobDefinition\<close> for the field \<^verbatim>\<open>containerProperties\<close>, which is given the tuple.
\<close>

theorem generate_job_definition_single_node_raises:
  "generate_job_definition example_config (example_info 1) [''python'', ''run.py'']
       [(''A'', ''1'')] ''a1b2''
     = (Inl (ValidationError ''AWSBatchJobDefinition'' [''containerProperties'']),
        [Get_run_step, Info_cpu_converted (Finite (23 / 10)) 3])"
  by code_simp

text \<open>
  C4. For a node count of 2 or more the job definition should have the type \<^verbatim>\<open>multinode\<close>
  with \<^verbatim>\<open>numNodes\<close> the node count, \<^verbatim>\<open>mainNode\<close> 0 and one node range over \<^verbatim>\<open>0,...,n-1\<close>.
  The source does not get there: at node count 2 \<^verbatim>\<open>generate_job_definition\<close> raises the
  validation error of the node range for the field \<^verbatim>\<open>container\<close>, which is given the tuple.
\<close>

theorem generate_job_definition_multinode_raises:
  "generate_job_definition example_config (example_info 2) [''python'', ''run.py'']
       [(''A'', ''1'')] ''a1b2''
     = (Inl (ValidationError ''AWSBatchJobDefinitionNodePropertiesNodeRangeProperty''
               [''container'']),
        [Get_run_step, Info_cpu_converted (Finite (23 / 10)) 3])"
  by code_simp

text \<open>
  C3. With node count 0, \<^verbatim>\<open>launch\<close> raises and no call of the AWS Batch client is among its
  events. What it raises is a validation error of a pydantic model, unless the resource
  mapper has raised before. Lines 348 to 374 raise a validation error at node count 0
  whatever the value of \<^verbatim>\<open>container_properties\<close> is.
\<close>

theorem launch_node_count_zero:
  assumes "node_count (settings info) = 0"
  shows "(\<exists>e. fst (launch config info cmd env suffix batch) = Raised e)
       \<and> filter is_batch_call (snd (launch config info cmd env suffix batch)) = []
       \<and> ((\<exists>m fs. fst (launch config info cmd env suffix batch) = Raised (ValidationError m fs))
          \<or> (\<exists>e. fst (map_resource_settings (resource_settings info)) = Inl e
                 \<and> fst (launch config info cmd env suffix batch) = Raised e))
       \<and> (\<exists>m fs. compile_job_definition c name (node_count (settings info)) tmo
                   = Inl (ValidationError m fs))"
proof -
  obtain e where e: "fst (generate_job_definition config info cmd env suffix) = Inl e"
    using generate_job_definition_raises by blast
  have l: "launch config info cmd env suffix batch =
             (Raised e, snd (generate_job_definition config info cmd env suffix))"
    using launch_raises_what_the_compiler_raises [OF e] .
  have kind: "(\<exists>m fs. e = ValidationError m fs)
              \<or> fst (map_resource_settings (resource_settings info)) = Inl e"
    using e
    by (auto simp: generate_job_definition_def Let_def compile_job_definition_tuple
          split: prod.splits sum.splits if_splits)
  have zero: "\<exists>m fs. compile_job_definition c name (node_count (settings info)) tmo
                       = Inl (ValidationError m fs)"
    using compile_job_definition_zero [of c name tmo] assms by simp
  show ?thesis
    using l kind zero generate_job_definition_no_batch_call [of config info cmd env suffix]
    by auto
qed

theorem launch_node_count_zero_witness:
  "node_count (settings (example_info 0)) = 0
   \<and> (\<exists>e. fst (launch example_config (example_info 0) [''python'', ''run.py''] [(''A'', ''1'')]
                 ''a1b2'' (example_client [])) = Raised e)
   \<and> filter is_batch_call
        (snd (launch example_config (example_info 0) [''python'', ''run.py''] [(''A'', ''1'')]
                 ''a1b2'' (example_client []))) = []"
proof -
  have z: "node_count (settings (example_info 0)) = 0"
    by (simp add: example_info_def)
  show ?thesis
    using z launch_node_count_zero [OF z, of example_config "[''python'', ''run.py'']"
            "[(''A'', ''1'')]" "''a1b2''" "example_client []"]
    by blast
qed

text \<open>
  C8. Two runs of the compiler on the same inputs differ in nothing but the job name, and
  the two job names differ in nothing but the suffix: the result of the run with suffix
  \<open>s1\<close> is the result of the run with suffix \<open>s2\<close> with the job name of \<open>s1\<close> put in, and the
  events are the same. This holds for \<^verbatim>\<open>generate_job_definition\<close> and, whatever the value of
  \<^verbatim>\<open>container_properties\<close> is, for lines 348 to 374.
\<close>

theorem generate_job_definition_deterministic:
  "fst (generate_job_definition config info cmd env s1)
     = map_sum id
         (\<lambda>d. d\<lparr>jobDefinitionName :=
                  generate_unique_batch_job_name (pipeline_name info) (step_name info) s1\<rparr>)
         (fst (generate_job_definition config info cmd env s2))
   \<and> snd (generate_job_definition config info cmd env s1)
     = snd (generate_job_definition config info cmd env s2)
   \<and> compile_job_definition c
       (generate_unique_batch_job_name (pipeline_name info) (step_name info) s1) k tmo
     = map_sum id
         (\<lambda>d. d\<lparr>jobDefinitionName :=
                  generate_unique_batch_job_name (pipeline_name info) (step_name info) s1\<rparr>)
         (compile_job_definition c
            (generate_unique_batch_job_name (pipeline_name info) (step_name info) s2) k tmo)
   \<and> generate_unique_batch_job_name (pipeline_name info) (step_name info) s1
     = take 55 (pipeline_name info @ ''-'' @ step_name info) @ ''-'' @ s1"
proof -
  have "fst (generate_job_definition config info cmd env s1)
     = map_sum id
         (\<lambda>d. d\<lparr>jobDefinitionName :=
                  generate_unique_batch_job_name (pipeline_name info) (step_name info) s1\<rparr>)
         (fst (generate_job_definition config info cmd env s2))"
    using compile_job_definition_rename
    by (auto simp: generate_job_definition_def Let_def split: prod.splits sum.splits)
  moreover have "snd (generate_job_definition config info cmd env s1)
     = snd (generate_job_definition config info cmd env s2)"
    by (auto simp: generate_job_definition_def Let_def split: prod.splits sum.splits)
  ultimately show ?thesis
    using compile_job_definition_rename
    by (simp add: generate_unique_batch_job_name_def)
qed

text \<open>
  C9. Every job definition that lines 348 to 374 build, whatever the node count, the
  timeout, the job name and the value of \<^verbatim>\<open>container_properties\<close> are, carries the default
  retry strategy: two attempts, and the three rules exit code 137 to \<^verbatim>\<open>RETRY\<close>, reason
  \<^verbatim>\<open>*Host EC2*\<close> to \<^verbatim>\<open>RETRY\<close> and any exit code to \<^verbatim>\<open>EXIT\<close>, in this order.
\<close>

theorem compile_job_definition_retry_strategy:
  assumes "compile_job_definition c name k tmo = Inr d"
  shows "retryStrategy d =
           \<lparr>attempts = 2,
            evaluateOnExit =
              [[(''onExitCode'', ''137''), (''action'', ''RETRY'')],
               [(''onReason'', ''*Host EC2*''), (''action'', ''RETRY'')],
               [(''onExitCode'', ''*''), (''action'', ''EXIT'')]]\<rparr>"
proof -
  have "retryStrategy d = AWSBatchJobDefinitionRetryStrategy_default"
    using assms AWSBatchJobDefinition_init_retry
    by (auto simp: compile_job_definition_def split: if_splits sum.splits)
  then show ?thesis
    by (simp add: AWSBatchJobDefinitionRetryStrategy_default_def)
qed

theorem compile_job_definition_retry_strategy_witness:
  "\<exists>d. compile_job_definition (PyInst example_container) ''pipe-step-a1b2'' 3 60 = Inr d
       \<and> attempts (retryStrategy d) = 2
       \<and> map (\<lambda>rule. map_of rule ''action'') (evaluateOnExit (retryStrategy d))
           = [Some ''RETRY'', Some ''RETRY'', Some ''EXIT'']"
proof -
  obtain d where d: "compile_job_definition (PyInst example_container) ''pipe-step-a1b2'' 3 60 = Inr d"
    using compile_job_definition_instance_multinode [of 3 example_container "''pipe-step-a1b2''" 60]
    by simp
  show ?thesis
    using d compile_job_definition_retry_strategy [OF d] by simp
qed

section \<open>Properties of the poll loop\<close>

text \<open>
  The three ways out of the loop are live: a status that is the list \<^verbatim>\<open>['SUCCEEDED']\<close>
  returns, a status that is the list \<^verbatim>\<open>["FAILED"]\<close> raises the runtime error with the job id
  and the reason, and an exception of the query is raised again.
\<close>

lemma poll_loop_list_status:
  "poll_loop job_id (Inr \<lparr>status = PyList [PyStr ''SUCCEEDED''], statusReason = r\<rparr> # answers)
     = (Returned, [Describe_jobs job_id, Info_job_completed job_id])"
  "poll_loop job_id (Inr \<lparr>status = PyList [PyStr ''FAILED''], statusReason = None\<rparr> # answers)
     = (Raised (RuntimeError (''Job '' @ job_id @ '' failed: Unknown'')), [Describe_jobs job_id])"
  "poll_loop job_id (Inr \<lparr>status = PyList [PyStr ''FAILED''], statusReason = Some x\<rparr> # answers)
     = (Raised (RuntimeError (''Job '' @ job_id @ '' failed: '' @ x)), [Describe_jobs job_id])"
  "poll_loop job_id (Inl (ClientError m) # answers)
     = (Raised (ClientError m),
        [Describe_jobs job_id, Error_describe_failed job_id (ClientError m)])"
  by simp_all

text \<open>
  AWS Batch gives the status as a string. With string statuses only, the loop is still
  polling after any number of answers.
\<close>

lemma poll_loop_string_status:
  "list_all (\<lambda>a. case a of Inl e \<Rightarrow> False
                 | Inr job \<Rightarrow> (case status job of PyStr s \<Rightarrow> True | PyList xs \<Rightarrow> False)) answers
     \<Longrightarrow> fst (poll_loop job_id answers) = Polling"
proof (induction answers)
  case Nil
  then show ?case by simp
next
  case (Cons a answers)
  then show ?case
    by (cases a) (auto split: pyobj.splits)
qed

text \<open>
  C1. On the status \<^verbatim>\<open>SUCCEEDED\<close> the launch should log the completion and return, and on
  the status \<^verbatim>\<open>FAILED\<close> it should raise an error with the job id and the reason. The source
  does neither: the status is a string and is compared with a list, so on either answer the
  loop sleeps and asks again.
\<close>

theorem poll_loop_string_status_keeps_polling:
  "poll_loop ''job-1'' [Inr \<lparr>status = PyStr ''SUCCEEDED'', statusReason = None\<rparr>]
     = (Polling, [Describe_jobs ''job-1'', Sleep 10])
   \<and> poll_loop ''job-1''
        [Inr \<lparr>status = PyStr ''FAILED'', statusReason = Some ''OutOfMemoryError''\<rparr>]
     = (Polling, [Describe_jobs ''job-1'', Sleep 10])"
  by simp

end
